theory Spec2Isabelle
  imports Main "HOL-Library.AList"
begin

section \<open>Python values\<close>

text \<open>
  The values that travel through \<^verbatim>\<open>orch_api.py\<close>: what \<^verbatim>\<open>response.json()\<close> can
  return and what a request body can hold. A \<^verbatim>\<open>dict\<close> is an association list in
  insertion order, with string keys. Floats are left out. A character is a code point
  below 256.
\<close>

datatype pyval =
    PNone
  | PBool bool
  | PInt int
  | PStr string
  | PList "pyval list"
  | PDict "(string \<times> pyval) list"

subsection \<open>\<^verbatim>\<open>str\<close>, \<^verbatim>\<open>repr\<close> and \<^verbatim>\<open>str.lower\<close>\<close>

definition digit_char :: "nat \<Rightarrow> char" where
  "digit_char n = ''0123456789abcdef'' ! (n mod 16)"

fun str_nat :: "nat \<Rightarrow> string" where
  "str_nat n =
     (if n < 10 then [digit_char n] else str_nat (n div 10) @ [digit_char (n mod 10)])"

definition str_int :: "int \<Rightarrow> string" where
  "str_int i = (if i < 0 then CHR ''-'' # str_nat (nat (- i)) else str_nat (nat i))"

definition printable :: "char \<Rightarrow> bool" where
  "printable c =
     (let n = (of_char c :: nat)
      in (32 \<le> n \<and> n < 127) \<or> (161 \<le> n \<and> n \<noteq> 173))"

definition repr_char :: "char \<Rightarrow> char \<Rightarrow> string" where
  "repr_char q c =
     (if c = q \<or> c = CHR 0x5C then [CHR 0x5C, c]
      else if c = CHR 0x09 then [CHR 0x5C, CHR ''t'']
      else if c = CHR 0x0A then [CHR 0x5C, CHR ''n'']
      else if c = CHR 0x0D then [CHR 0x5C, CHR ''r'']
      else if printable c then [c]
      else [CHR 0x5C, CHR ''x'',
            digit_char ((of_char c :: nat) div 16), digit_char ((of_char c :: nat) mod 16)])"

definition repr_str :: "string \<Rightarrow> string" where
  "repr_str s =
     (let q = (if CHR 0x27 \<in> set s \<and> CHR 0x22 \<notin> set s then CHR 0x22 else CHR 0x27)
      in q # concat (map (repr_char q) s) @ [q])"

fun join :: "string \<Rightarrow> string list \<Rightarrow> string" where
  "join sep [] = []"
| "join sep [x] = x"
| "join sep (x # y # ys) = x @ sep @ join sep (y # ys)"

primrec py_repr :: "pyval \<Rightarrow> string" where
  "py_repr PNone = ''None''"
| "py_repr (PBool b) = (if b then ''True'' else ''False'')"
| "py_repr (PInt i) = str_int i"
| "py_repr (PStr s) = repr_str s"
| "py_repr (PList xs) = ''['' @ join '', '' (map py_repr xs) @ '']''"
| "py_repr (PDict kvs) =
     ''{'' @ join '', '' (map (\<lambda>(k, r). repr_str k @ '': '' @ r) (map (map_prod id py_repr) kvs))
       @ ''}''"

text \<open>\<^verbatim>\<open>str(v)\<close>, which is also what an f-string field \<^verbatim>\<open>{v}\<close> renders.\<close>

definition py_str :: "pyval \<Rightarrow> string" where
  "py_str v = (case v of PStr s \<Rightarrow> s | _ \<Rightarrow> py_repr v)"

definition lower_char :: "char \<Rightarrow> char" where
  "lower_char c =
     (let n = (of_char c :: nat)
      in if (65 \<le> n \<and> n \<le> 90) \<or> (192 \<le> n \<and> n \<le> 222 \<and> n \<noteq> 215)
         then char_of (n + 32) else c)"

definition lower :: "string \<Rightarrow> string" where
  "lower s = map lower_char s"

subsection \<open>Dictionaries\<close>

type_synonym 'v dict = "(string \<times> 'v) list"

text \<open>A Python \<^verbatim>\<open>dict\<close> holds each key once.\<close>

definition is_dict :: "'v dict \<Rightarrow> bool" where
  "is_dict d = distinct (map fst d)"

definition dict_get :: "'v dict \<Rightarrow> string \<Rightarrow> 'v option" where
  "dict_get d k = map_of d k"

text \<open>\<^verbatim>\<open>d[k] = v\<close>: an existing key keeps its place, a new one goes last.\<close>

definition dict_setitem :: "string \<Rightarrow> 'v \<Rightarrow> 'v dict \<Rightarrow> 'v dict" where
  "dict_setitem k v d = AList.update k v d"

text \<open>\<^verbatim>\<open>d.update(other)\<close>: the items of \<open>other\<close> are stored in their order.\<close>

definition dict_update :: "'v dict \<Rightarrow> 'v dict \<Rightarrow> 'v dict" where
  "dict_update d other = fold (\<lambda>(k, v). dict_setitem k v) other d"

section \<open>Exceptions\<close>

datatype error =
    ValueError string
  | KeyError string
  | TypeError
  | JSONDecodeError string
  | RequestException string

text \<open>\<^verbatim>\<open>v[key]\<close> with a string key: only a dict that holds the key has an answer.\<close>

definition py_getitem :: "pyval \<Rightarrow> string \<Rightarrow> error + pyval" where
  "py_getitem v key =
     (case v of
        PDict d \<Rightarrow> (case dict_get d key of None \<Rightarrow> Inl (KeyError key) | Some x \<Rightarrow> Inr x)
      | _ \<Rightarrow> Inl TypeError)"

section \<open>The \<^verbatim>\<open>requests\<close> library\<close>

text \<open>
  A request is what the code hands to \<^verbatim>\<open>requests.get\<close>, \<^verbatim>\<open>requests.post\<close> or
  \<^verbatim>\<open>requests.delete\<close>. A response carries what the code reads from it: the status
  code, the body text, and the outcome of \<^verbatim>\<open>response.json()\<close>, which is either the
  decoded value or the exception the decoder raises on that text.
\<close>

datatype http_method = GET | POST | DELETE

record request =
  http_method :: http_method
  url :: string
  headers :: "string dict"
  json_body :: "pyval option"

record response =
  status_code :: int
  text_r :: string
  json :: "error + pyval"

text \<open>
  The remote side: given the requests issued so far and the current one, it either
  answers or the library raises (no connection, timeout).
\<close>

type_synonym network = "request list \<Rightarrow> request \<Rightarrow> error + response"

text \<open>What a call changes outside the client object: requests issued, lines printed.\<close>

record world =
  sent :: "request list"
  stdout :: "string list"

definition send :: "network \<Rightarrow> request \<Rightarrow> world \<Rightarrow> (error + response) \<times> world" where
  "send net rq w = (net (sent w) rq, w\<lparr>sent := sent w @ [rq]\<rparr>)"

definition requests_get ::
  "network \<Rightarrow> string \<Rightarrow> string dict \<Rightarrow> world \<Rightarrow> (error + response) \<times> world" where
  "requests_get net uri hs w =
     send net \<lparr>http_method = GET, url = uri, headers = hs, json_body = None\<rparr> w"

definition requests_delete ::
  "network \<Rightarrow> string \<Rightarrow> string dict \<Rightarrow> world \<Rightarrow> (error + response) \<times> world" where
  "requests_delete net uri hs w =
     send net \<lparr>http_method = DELETE, url = uri, headers = hs, json_body = None\<rparr> w"

definition requests_post ::
  "network \<Rightarrow> string \<Rightarrow> string dict \<Rightarrow> pyval \<Rightarrow> world \<Rightarrow> (error + response) \<times> world" where
  "requests_post net uri hs b w =
     send net \<lparr>http_method = POST, url = uri, headers = hs, json_body = Some b\<rparr> w"

definition print :: "string \<Rightarrow> world \<Rightarrow> world" where
  "print s w = w\<lparr>stdout := stdout w @ [s]\<rparr>"

section \<open>The client\<close>

text \<open>
  Four names of the source are taken in Isabelle and carry a suffix here: \<open>id'\<close> is
  the parameter \<^verbatim>\<open>id\<close>, \<open>val\<close> the parameter \<^verbatim>\<open>value\<close>, \<open>base_url'\<close> the
  parameter \<^verbatim>\<open>base_url\<close> of \<^verbatim>\<open>__init__\<close>, and \<open>text_r\<close> the attribute
  \<^verbatim>\<open>response.text\<close>. The parameters have the types of their annotations; \<^verbatim>\<open>value\<close>,
  \<^verbatim>\<open>username\<close> and \<^verbatim>\<open>password\<close> have none and are any value.
\<close>

definition CONTENT_TYPE_JSON :: string where
  "CONTENT_TYPE_JSON = ''application/json''"

record OrchApi =
  base_url :: string
  access_token :: pyval

text \<open>
  The message every failed call raises: \<^verbatim>\<open>f"{what} Status code:
  {str(response.status_code)}. Response: {response.text}"\<close>.
\<close>

definition failure :: "string \<Rightarrow> response \<Rightarrow> error" where
  "failure what response =
     ValueError (what @ '' Status code: '' @ str_int (status_code response)
                 @ ''. Response: '' @ text_r response)"

subsection \<open>\<^verbatim>\<open>__init__\<close>\<close>

definition init ::
  "network \<Rightarrow> string \<Rightarrow> string \<Rightarrow> string \<Rightarrow> string \<Rightarrow> world \<Rightarrow> (error + OrchApi) \<times> world" where
  "init net client_id refresh_token base_url' tokenurl w =
     (let token_url = tokenurl;
          body = PDict [(''grant_type'', PStr ''refresh_token''),
                        (''client_id'', PStr client_id),
                        (''refresh_token'', PStr refresh_token)];
          hs = [(''Authorization'', ''Bearer''), (''Content-Type'', CONTENT_TYPE_JSON)];
          (r, w') = requests_post net token_url hs body w
      in case r of
           Inl e \<Rightarrow> (Inl e, w')
         | Inr response \<Rightarrow>
             (case json response of
                Inl e \<Rightarrow> (Inl e, w')
              | Inr access \<Rightarrow>
                  if status_code response = 200 then
                    (case py_getitem access ''access_token'' of
                       Inl e \<Rightarrow> (Inl e, w')
                     | Inr tok \<Rightarrow> (Inr \<lparr>base_url = base_url', access_token = tok\<rparr>, w'))
                  else (Inl (failure ''Failed to retrieve access token.'' response), w')))"

definition default_tokenurl :: string where
  "default_tokenurl = ''https://account.uipath.com/oauth/token''"

subsection \<open>Assets\<close>

text \<open>
  A method takes the client object and the world and gives back its result, the client
  object as the call leaves it, and the world.
\<close>

type_synonym 'a outcome = "(error + 'a) \<times> OrchApi \<times> world"

definition get_all_assets :: "network \<Rightarrow> OrchApi \<Rightarrow> world \<Rightarrow> (pyval \<times> response) outcome" where
  "get_all_assets net self w =
     (let uri = base_url self
                @ ''/odata/Assets/UiPath.Server.Configuration.OData.GetAssetsAcrossFolders'';
          hs = [(''Authorization'', ''Bearer '' @ py_str (access_token self)),
                (''Content-Type'',
                 ''application/json;odata.metadata=minimal;odata.streaming=True''),
                (''accept'', CONTENT_TYPE_JSON)];
          (r, w') = requests_get net uri hs w
      in case r of
           Inl e \<Rightarrow> (Inl e, self, w')
         | Inr response \<Rightarrow>
             if status_code response = 200 then
               (case json response of
                  Inl e \<Rightarrow> (Inl e, self, w')
                | Inr j \<Rightarrow> (Inr (j, response), self, w'))
             else (Inl (failure ''Failed to retrieve assets.'' response), self, w'))"

definition get_assets_by_key ::
  "network \<Rightarrow> OrchApi \<Rightarrow> int \<Rightarrow> int \<Rightarrow> world \<Rightarrow> (pyval \<times> response) outcome" where
  "get_assets_by_key net self key id' w =
     (let uri = base_url self @ ''/odata/Assets('' @ str_int key @ '')'';
          hs = [(''Authorization'', ''Bearer '' @ py_str (access_token self)),
                (''X-UIPATH-OrganizationUnitId'', str_int id'),
                (''accept'', CONTENT_TYPE_JSON)];
          (r, w') = requests_get net uri hs w
      in case r of
           Inl e \<Rightarrow> (Inl e, self, w')
         | Inr response \<Rightarrow>
             if status_code response = 200 then
               (case json response of
                  Inl e \<Rightarrow> (Inl e, self, w')
                | Inr j \<Rightarrow> (Inr (j, response), self, w'))
             else (Inl (failure ''Failed to retrieve assets.'' response), self, w'))"

definition delete_asset :: "network \<Rightarrow> OrchApi \<Rightarrow> int \<Rightarrow> int \<Rightarrow> world \<Rightarrow> unit outcome" where
  "delete_asset net self key id' w =
     (let uri = base_url self @ ''/odata/Assets('' @ str_int key @ '')'';
          hs = [(''Authorization'', ''Bearer '' @ py_str (access_token self)),
                (''X-UIPATH-OrganizationUnitId'', str_int id'),
                (''accept'', CONTENT_TYPE_JSON)];
          (r, w') = requests_delete net uri hs w
      in case r of
           Inl e \<Rightarrow> (Inl e, self, w')
         | Inr response \<Rightarrow>
             if status_code response = 204 then
               (Inr (), self, print ''Asset has been deleted.'' w')
             else (Inl (failure ''Failed to delete asset.'' response), self, w'))"

text \<open>Lines 134 to 153 of \<^verbatim>\<open>create_asset\<close>: the body before the branch on the tag.\<close>

definition create_asset_base ::
  "string \<Rightarrow> pyval \<Rightarrow> string \<Rightarrow> string \<Rightarrow> string \<Rightarrow> pyval dict" where
  "create_asset_base name val value_type value_scope description =
     [(''Name'', PStr name),
      (''CanBeDeleted'', PBool True),
      (''ValueScope'', PStr value_scope),
      (''ValueType'', PStr value_type),
      (''Value'', PStr (py_str val)),
      (''StringValue'', PStr []),
      (''BoolValue'', PBool False),
      (''IntValue'', PInt 0),
      (''CredentialUsername'', PStr []),
      (''CredentialPassword'', PStr []),
      (''ExternalName'', PStr []),
      (''CredentialStoreId'', PInt 0),
      (''KeyValueList'', PList []),
      (''HasDefaultValue'', PBool False),
      (''Description'', PStr description),
      (''RobotValues'', PList []),
      (''UserValues'', PList []),
      (''Tags'', PList [])]"

text \<open>Lines 155 to 164: the branch on the tag.\<close>

definition create_asset_body ::
  "string \<Rightarrow> pyval \<Rightarrow> string \<Rightarrow> string \<Rightarrow> string \<Rightarrow> pyval \<Rightarrow> pyval \<Rightarrow> pyval dict" where
  "create_asset_body name val value_type value_scope description username password =
     (let body = create_asset_base name val value_type value_scope description
      in if value_type = ''Integer'' then dict_setitem ''IntValue'' val body
         else if value_type = ''Boolean'' then
           dict_setitem ''Value'' (PStr (lower (py_str val)))
             (dict_setitem ''BoolValue'' val body)
         else if value_type = ''String'' then dict_setitem ''StringValue'' val body
         else if value_type = ''Credential'' then
           dict_setitem ''CredentialPassword'' password
             (dict_setitem ''CredentialUsername'' username body)
         else body)"

definition create_asset ::
  "network \<Rightarrow> OrchApi \<Rightarrow> int \<Rightarrow> string \<Rightarrow> pyval \<Rightarrow> string \<Rightarrow> string \<Rightarrow> string \<Rightarrow> pyval \<Rightarrow> pyval
     \<Rightarrow> world \<Rightarrow> (pyval \<times> response) outcome" where
  "create_asset net self id' name val value_type value_scope description username password w =
     (if value_type \<notin> set [''Integer'', ''Boolean'', ''String'', ''Credential''] then
        (Inl (ValueError
           ''Invalid value_type. Expected 'Integer', 'Boolean', 'String', or 'Credential'.''),
         self, w)
      else
        let uri = base_url self @ ''/odata/Assets'';
            hs = [(''Authorization'', ''Bearer '' @ py_str (access_token self)),
                  (''X-UIPATH-OrganizationUnitId'', str_int id'),
                  (''accept'', CONTENT_TYPE_JSON)];
            body = create_asset_body name val value_type value_scope description
                     username password;
            (r, w') = requests_post net uri hs (PDict body) w
        in case r of
             Inl e \<Rightarrow> (Inl e, self, w')
           | Inr response \<Rightarrow>
               if status_code response = 201 then
                 (case json response of
                    Inl e \<Rightarrow> (Inl e, self, w')
                  | Inr j \<Rightarrow> (Inr (j, response), self, w'))
               else (Inl (failure ''Failed to create asset.'' response), self, w'))"

text \<open>The defaults of the optional parameters of \<^verbatim>\<open>create_asset\<close>.\<close>

definition create_asset_defaults ::
  "network \<Rightarrow> OrchApi \<Rightarrow> int \<Rightarrow> string \<Rightarrow> pyval \<Rightarrow> string \<Rightarrow> world \<Rightarrow> (pyval \<times> response) outcome" where
  "create_asset_defaults net self id' name val value_type w =
     create_asset net self id' name val value_type ''Global'' ''using api'' PNone PNone w"

subsection \<open>Queues\<close>

definition add_queue_item_body ::
  "string \<Rightarrow> pyval dict \<Rightarrow> string \<Rightarrow> pyval dict \<Rightarrow> pyval dict" where
  "add_queue_item_body queue_name specific_content priority kwargs =
     (let body = [(''itemData'',
                   PDict [(''Name'', PStr queue_name),
                          (''Priority'', PStr priority),
                          (''SpecificContent'', PDict specific_content)])]
      in dict_update body kwargs)"

definition add_queue_item ::
  "network \<Rightarrow> OrchApi \<Rightarrow> int \<Rightarrow> string \<Rightarrow> pyval dict \<Rightarrow> string \<Rightarrow> pyval dict
     \<Rightarrow> world \<Rightarrow> (pyval \<times> response) outcome" where
  "add_queue_item net self id' queue_name specific_content priority kwargs w =
     (let uri = base_url self @ ''/odata/Queues/UiPathODataSvc.AddQueueItem'';
          hs = [(''Authorization'', ''Bearer '' @ py_str (access_token self)),
                (''X-UIPATH-OrganizationUnitId'', str_int id'),
                (''accept'', CONTENT_TYPE_JSON)];
          body = add_queue_item_body queue_name specific_content priority kwargs;
          (r, w') = requests_post net uri hs (PDict body) w
      in case r of
           Inl e \<Rightarrow> (Inl e, self, w')
         | Inr response \<Rightarrow>
             if status_code response = 201 then
               (case json response of
                  Inl e \<Rightarrow> (Inl e, self, w')
                | Inr j \<Rightarrow> (Inr (j, response), self, w'))
             else (Inl (failure ''Failed to create queue item.'' response), self, w'))"

definition create_queue_body :: "string \<Rightarrow> string \<Rightarrow> pyval dict \<Rightarrow> pyval dict" where
  "create_queue_body name description kwargs =
     (let body = [(''Name'', PStr name), (''Description'', PStr description)]
      in dict_update body kwargs)"

definition create_queue ::
  "network \<Rightarrow> OrchApi \<Rightarrow> int \<Rightarrow> string \<Rightarrow> string \<Rightarrow> pyval dict
     \<Rightarrow> world \<Rightarrow> (pyval \<times> response) outcome" where
  "create_queue net self id' name description kwargs w =
     (let uri = base_url self @ ''/odata/QueueDefinitions'';
          hs = [(''Authorization'', ''Bearer '' @ py_str (access_token self)),
                (''X-UIPATH-OrganizationUnitId'', str_int id'),
                (''accept'', CONTENT_TYPE_JSON)];
          body = create_queue_body name description kwargs;
          (r, w') = requests_post net uri hs (PDict body) w
      in case r of
           Inl e \<Rightarrow> (Inl e, self, w')
         | Inr response \<Rightarrow>
             if status_code response = 201 then
               (case json response of
                  Inl e \<Rightarrow> (Inl e, self, w')
                | Inr j \<Rightarrow> (Inr (j, response), self, w'))
             else (Inl (failure ''Failed to create queue.'' response), self, w'))"

section \<open>Callers and observations\<close>

text \<open>
  A caller makes method calls on one client, one after the other, and goes on after a
  call that raised.
\<close>

datatype call =
    GetAllAssets
  | GetAssetsByKey int int
  | DeleteAsset int int
  | CreateAsset int string pyval string string string pyval pyval
  | AddQueueItem int string "pyval dict" string "pyval dict"
  | CreateQueue int string string "pyval dict"

fun invoke :: "network \<Rightarrow> call \<Rightarrow> OrchApi \<Rightarrow> world \<Rightarrow> OrchApi \<times> world" where
  "invoke net GetAllAssets self w = snd (get_all_assets net self w)"
| "invoke net (GetAssetsByKey key id') self w = snd (get_assets_by_key net self key id' w)"
| "invoke net (DeleteAsset key id') self w = snd (delete_asset net self key id' w)"
| "invoke net (CreateAsset id' name val value_type value_scope description username password)
     self w =
     snd (create_asset net self id' name val value_type value_scope description
            username password w)"
| "invoke net (AddQueueItem id' queue_name specific_content priority kwargs) self w =
     snd (add_queue_item net self id' queue_name specific_content priority kwargs w)"
| "invoke net (CreateQueue id' name description kwargs) self w =
     snd (create_queue net self id' name description kwargs w)"

fun run :: "network \<Rightarrow> call list \<Rightarrow> OrchApi \<Rightarrow> world \<Rightarrow> OrchApi \<times> world" where
  "run net [] self w = (self, w)"
| "run net (c # cs) self w = (case invoke net c self w of (self', w') \<Rightarrow> run net cs self' w')"

text \<open>The requests issued between two worlds.\<close>

definition issued :: "world \<Rightarrow> world \<Rightarrow> request list" where
  "issued w w' = drop (length (sent w)) (sent w')"

text \<open>A top-level field of the JSON body of a request.\<close>

definition body_field :: "request \<Rightarrow> string \<Rightarrow> pyval option" where
  "body_field rq k =
     (case json_body rq of Some (PDict b) \<Rightarrow> dict_get b k | _ \<Rightarrow> None)"

text \<open>The two headers of an authenticated request, for a given token.\<close>

definition authenticated :: "string \<Rightarrow> request \<Rightarrow> bool" where
  "authenticated token rq =
     (dict_get (headers rq) ''Authorization'' = Some (''Bearer '' @ token)
      \<and> dict_get (headers rq) ''accept'' = Some ''application/json'')"

text \<open>The request each method issues.\<close>

definition token_request :: "string \<Rightarrow> string \<Rightarrow> string \<Rightarrow> request" where
  "token_request client_id refresh_token tokenurl =
     \<lparr>http_method = POST, url = tokenurl,
      headers = [(''Authorization'', ''Bearer''), (''Content-Type'', ''application/json'')],
      json_body = Some (PDict [(''grant_type'', PStr ''refresh_token''),
                               (''client_id'', PStr client_id),
                               (''refresh_token'', PStr refresh_token)])\<rparr>"

definition get_all_assets_request :: "OrchApi \<Rightarrow> request" where
  "get_all_assets_request self =
     \<lparr>http_method = GET,
      url = base_url self
            @ ''/odata/Assets/UiPath.Server.Configuration.OData.GetAssetsAcrossFolders'',
      headers = [(''Authorization'', ''Bearer '' @ py_str (access_token self)),
                 (''Content-Type'',
                  ''application/json;odata.metadata=minimal;odata.streaming=True''),
                 (''accept'', ''application/json'')],
      json_body = None\<rparr>"

definition scoped_headers :: "OrchApi \<Rightarrow> int \<Rightarrow> string dict" where
  "scoped_headers self id' =
     [(''Authorization'', ''Bearer '' @ py_str (access_token self)),
      (''X-UIPATH-OrganizationUnitId'', str_int id'),
      (''accept'', ''application/json'')]"

definition get_assets_by_key_request :: "OrchApi \<Rightarrow> int \<Rightarrow> int \<Rightarrow> request" where
  "get_assets_by_key_request self key id' =
     \<lparr>http_method = GET, url = base_url self @ ''/odata/Assets('' @ str_int key @ '')'',
      headers = scoped_headers self id', json_body = None\<rparr>"

definition delete_request :: "OrchApi \<Rightarrow> int \<Rightarrow> int \<Rightarrow> request" where
  "delete_request self key id' =
     \<lparr>http_method = DELETE, url = base_url self @ ''/odata/Assets('' @ str_int key @ '')'',
      headers = scoped_headers self id', json_body = None\<rparr>"

definition create_asset_request :: "OrchApi \<Rightarrow> int \<Rightarrow> pyval dict \<Rightarrow> request" where
  "create_asset_request self id' body =
     \<lparr>http_method = POST, url = base_url self @ ''/odata/Assets'',
      headers = scoped_headers self id', json_body = Some (PDict body)\<rparr>"

definition add_queue_item_request :: "OrchApi \<Rightarrow> int \<Rightarrow> pyval dict \<Rightarrow> request" where
  "add_queue_item_request self id' body =
     \<lparr>http_method = POST,
      url = base_url self @ ''/odata/Queues/UiPathODataSvc.AddQueueItem'',
      headers = scoped_headers self id', json_body = Some (PDict body)\<rparr>"

definition create_queue_request :: "OrchApi \<Rightarrow> int \<Rightarrow> pyval dict \<Rightarrow> request" where
  "create_queue_request self id' body =
     \<lparr>http_method = POST, url = base_url self @ ''/odata/QueueDefinitions'',
      headers = scoped_headers self id', json_body = Some (PDict body)\<rparr>"

text \<open>The requests a call issues: one, or none when \<^verbatim>\<open>create_asset\<close> rejects the tag.\<close>

fun requests_of :: "OrchApi \<Rightarrow> call \<Rightarrow> request list" where
  "requests_of self GetAllAssets = [get_all_assets_request self]"
| "requests_of self (GetAssetsByKey key id') = [get_assets_by_key_request self key id']"
| "requests_of self (DeleteAsset key id') = [delete_request self key id']"
| "requests_of self
     (CreateAsset id' name val value_type value_scope description username password) =
     (if value_type \<in> set [''Integer'', ''Boolean'', ''String'', ''Credential'']
      then [create_asset_request self id'
              (create_asset_body name val value_type value_scope description
                 username password)]
      else [])"
| "requests_of self (AddQueueItem id' queue_name specific_content priority kwargs) =
     [add_queue_item_request self id'
        (add_queue_item_body queue_name specific_content priority kwargs)]"
| "requests_of self (CreateQueue id' name description kwargs) =
     [create_queue_request self id' (create_queue_body name description kwargs)]"

section \<open>Dictionaries\<close>

lemma dict_get_setitem:
  "dict_get (dict_setitem k v d) k' = (if k' = k then Some v else dict_get d k')"
  by (simp add: dict_get_def dict_setitem_def update_conv')

lemma dict_get_update_other:
  "k \<notin> fst ` set kw \<Longrightarrow> dict_get (dict_update d kw) k = dict_get d k"
  unfolding dict_update_def
  by (induction kw arbitrary: d) (auto simp: dict_get_setitem)

lemma dict_get_update_member:
  "is_dict kw \<Longrightarrow> (k, v) \<in> set kw \<Longrightarrow> dict_get (dict_update d kw) k = Some v"
  unfolding dict_update_def is_dict_def
proof (induction kw arbitrary: d)
  case Nil
  then show ?case by simp
next
  case (Cons p kw)
  show ?case
  proof (cases "p = (k, v)")
    case True
    with Cons.prems have "k \<notin> fst ` set kw" by auto
    then have "dict_get (dict_update (dict_setitem k v d) kw) k
                 = dict_get (dict_setitem k v d) k"
      by (rule dict_get_update_other)
    with True show ?thesis by (simp add: dict_update_def dict_get_setitem)
  next
    case False
    with Cons.prems have "(k, v) \<in> set kw" "distinct (map fst kw)" by auto
    then show ?thesis using Cons.IH by (cases p) simp
  qed
qed

section \<open>What each method issues and leaves\<close>

lemma issued_same: "issued w w = []"
  by (simp add: issued_def)

lemma issued_sent: "sent w' = sent w @ rqs \<Longrightarrow> issued w w' = rqs"
  by (simp add: issued_def)

lemma init_sent:
  "sent (snd (init net client_id refresh_token base tokenurl w)) =
     sent w @ [token_request client_id refresh_token tokenurl]"
  by (simp add: init_def requests_post_def send_def Let_def token_request_def
        CONTENT_TYPE_JSON_def split: sum.splits)

lemma init_result:
  "net (sent w) (token_request client_id refresh_token tokenurl) = Inr r \<Longrightarrow>
   fst (init net client_id refresh_token base tokenurl w) =
     (case json r of
        Inl e \<Rightarrow> Inl e
      | Inr access \<Rightarrow>
          if status_code r = 200 then
            (case py_getitem access ''access_token'' of
               Inl e \<Rightarrow> Inl e
             | Inr tok \<Rightarrow> Inr \<lparr>base_url = base, access_token = tok\<rparr>)
          else Inl (failure ''Failed to retrieve access token.'' r))"
  by (simp add: init_def requests_post_def send_def Let_def token_request_def
        CONTENT_TYPE_JSON_def split: sum.splits)

lemma get_all_assets_self: "fst (snd (get_all_assets net self w)) = self"
  by (simp add: get_all_assets_def requests_get_def send_def Let_def split: sum.splits)

lemma get_all_assets_sent:
  "sent (snd (snd (get_all_assets net self w))) = sent w @ [get_all_assets_request self]"
  by (simp add: get_all_assets_def requests_get_def send_def Let_def
        get_all_assets_request_def CONTENT_TYPE_JSON_def split: sum.splits)

lemma get_assets_by_key_self: "fst (snd (get_assets_by_key net self key i w)) = self"
  by (simp add: get_assets_by_key_def requests_get_def send_def Let_def split: sum.splits)

lemma get_assets_by_key_sent:
  "sent (snd (snd (get_assets_by_key net self key i w))) =
     sent w @ [get_assets_by_key_request self key i]"
  by (simp add: get_assets_by_key_def requests_get_def send_def Let_def
        get_assets_by_key_request_def scoped_headers_def CONTENT_TYPE_JSON_def
        split: sum.splits)

lemma delete_asset_self: "fst (snd (delete_asset net self key i w)) = self"
  by (simp add: delete_asset_def requests_delete_def send_def Let_def split: sum.splits)

lemma delete_asset_sent:
  "sent (snd (snd (delete_asset net self key i w))) = sent w @ [delete_request self key i]"
  by (simp add: delete_asset_def requests_delete_def send_def Let_def print_def
        delete_request_def scoped_headers_def CONTENT_TYPE_JSON_def split: sum.splits)

lemma delete_asset_result:
  "net (sent w) (delete_request self key i) = Inr r \<Longrightarrow>
   fst (delete_asset net self key i w) =
     (if status_code r = 204 then Inr () else Inl (failure ''Failed to delete asset.'' r))"
  by (simp add: delete_asset_def requests_delete_def send_def Let_def
        delete_request_def scoped_headers_def CONTENT_TYPE_JSON_def)

lemma create_asset_invalid:
  "value_type \<notin> set [''Integer'', ''Boolean'', ''String'', ''Credential''] \<Longrightarrow>
   create_asset net self i name val value_type value_scope description u p w =
     (Inl (ValueError
        ''Invalid value_type. Expected 'Integer', 'Boolean', 'String', or 'Credential'.''),
      self, w)"
  by (simp add: create_asset_def del: list.set)

lemma create_asset_valid_sent:
  "value_type \<in> set [''Integer'', ''Boolean'', ''String'', ''Credential''] \<Longrightarrow>
   sent (snd (snd (create_asset net self i name val value_type value_scope description
                     u p w))) =
     sent w @ [create_asset_request self i
                 (create_asset_body name val value_type value_scope description u p)]"
  by (simp add: create_asset_def requests_post_def send_def Let_def
        create_asset_request_def scoped_headers_def CONTENT_TYPE_JSON_def
        del: list.set split: sum.splits)

lemma create_asset_self:
  "fst (snd (create_asset net self i name val value_type value_scope description u p w))
     = self"
proof (cases "value_type \<in> set [''Integer'', ''Boolean'', ''String'', ''Credential'']")
  case True
  then show ?thesis
    by (simp add: create_asset_def requests_post_def send_def Let_def
          del: list.set split: sum.splits)
next
  case False
  then show ?thesis by (simp add: create_asset_invalid del: list.set)
qed

lemma add_queue_item_self:
  "fst (snd (add_queue_item net self i queue_name specific_content priority kwargs w)) = self"
  by (simp add: add_queue_item_def requests_post_def send_def Let_def split: sum.splits)

lemma add_queue_item_sent:
  "sent (snd (snd (add_queue_item net self i queue_name specific_content priority kwargs w)))
     = sent w @ [add_queue_item_request self i
                   (add_queue_item_body queue_name specific_content priority kwargs)]"
  by (simp add: add_queue_item_def requests_post_def send_def Let_def
        add_queue_item_request_def scoped_headers_def CONTENT_TYPE_JSON_def
        split: sum.splits)

lemma create_queue_self:
  "fst (snd (create_queue net self i name description kwargs w)) = self"
  by (simp add: create_queue_def requests_post_def send_def Let_def split: sum.splits)

lemma create_queue_sent:
  "sent (snd (snd (create_queue net self i name description kwargs w)))
     = sent w @ [create_queue_request self i (create_queue_body name description kwargs)]"
  by (simp add: create_queue_def requests_post_def send_def Let_def
        create_queue_request_def scoped_headers_def CONTENT_TYPE_JSON_def
        split: sum.splits)

lemma invoke_self: "fst (invoke net c self w) = self"
  by (cases c)
     (simp_all add: get_all_assets_self get_assets_by_key_self delete_asset_self
        create_asset_self add_queue_item_self create_queue_self)

lemma authenticated_scoped:
  "headers rq = scoped_headers self i \<Longrightarrow> authenticated (py_str (access_token self)) rq"
  by (simp add: authenticated_def scoped_headers_def dict_get_def)

lemma authenticated_get_all_assets:
  "authenticated (py_str (access_token self)) (get_all_assets_request self)"
  by (simp add: authenticated_def get_all_assets_request_def dict_get_def)

lemma create_asset_sent_cases:
  "sent (snd (snd (create_asset net self i name val value_type value_scope description
                     u p w))) = sent w
   \<or> sent (snd (snd (create_asset net self i name val value_type value_scope description
                     u p w))) =
       sent w @ [create_asset_request self i
                   (create_asset_body name val value_type value_scope description u p)]"
proof (cases "value_type \<in> set [''Integer'', ''Boolean'', ''String'', ''Credential'']")
  case True
  then show ?thesis by (simp add: create_asset_valid_sent del: list.set)
next
  case False
  then show ?thesis by (simp add: create_asset_invalid del: list.set)
qed

lemma invoke_sent:
  "\<exists>rqs. sent (snd (invoke net c self w)) = sent w @ rqs
         \<and> (\<forall>rq \<in> set rqs. authenticated (py_str (access_token self)) rq)"
proof (cases c)
  case GetAllAssets
  then show ?thesis
    by (simp add: get_all_assets_sent authenticated_get_all_assets)
next
  case (GetAssetsByKey key i)
  then show ?thesis
    by (simp add: get_assets_by_key_sent authenticated_scoped get_assets_by_key_request_def)
next
  case (DeleteAsset key i)
  then show ?thesis
    by (simp add: delete_asset_sent authenticated_scoped delete_request_def)
next
  case (CreateAsset i name val value_type value_scope description u p)
  have "authenticated (py_str (access_token self))
          (create_asset_request self i
             (create_asset_body name val value_type value_scope description u p))"
    by (simp add: authenticated_scoped create_asset_request_def)
  with create_asset_sent_cases [of net self i name val value_type value_scope description
         u p w] CreateAsset
  show ?thesis by auto
next
  case (AddQueueItem i queue_name specific_content priority kwargs)
  then show ?thesis
    by (simp add: add_queue_item_sent authenticated_scoped add_queue_item_request_def)
next
  case (CreateQueue i name description kwargs)
  then show ?thesis
    by (simp add: create_queue_sent authenticated_scoped create_queue_request_def)
qed

lemma run_self: "fst (run net cs self w) = self"
proof (induction cs arbitrary: w)
  case Nil
  show ?case by simp
next
  case (Cons c cs)
  obtain w' where "invoke net c self w = (self, w')"
    using invoke_self [of net c self w] by (cases "invoke net c self w") simp
  then show ?case by (simp add: Cons.IH)
qed

lemma run_sent:
  "\<exists>rqs. sent (snd (run net cs self w)) = sent w @ rqs
         \<and> (\<forall>rq \<in> set rqs. authenticated (py_str (access_token self)) rq)"
proof (induction cs arbitrary: w)
  case Nil
  show ?case by simp
next
  case (Cons c cs)
  obtain w' where inv: "invoke net c self w = (self, w')"
    using invoke_self [of net c self w] by (cases "invoke net c self w") simp
  from invoke_sent [of net c self w] inv obtain rqs where
    one: "sent w' = sent w @ rqs"
      "\<forall>rq \<in> set rqs. authenticated (py_str (access_token self)) rq"
    by auto
  from Cons.IH [of w'] obtain rqs' where
    rest: "sent (snd (run net cs self w')) = sent w' @ rqs'"
      "\<forall>rq \<in> set rqs'. authenticated (py_str (access_token self)) rq"
    by auto
  have "sent (snd (run net (c # cs) self w)) = sent w @ (rqs @ rqs')"
    using inv one(1) rest(1) by simp
  moreover have "\<forall>rq \<in> set (rqs @ rqs'). authenticated (py_str (access_token self)) rq"
    using one(2) rest(2) by auto
  ultimately show ?case by blast
qed

lemma run_issued_authenticated:
  "rq \<in> set (issued w (snd (run net cs self w))) \<Longrightarrow>
   authenticated (py_str (access_token self)) rq"
  using run_sent [of net cs self w] by (auto simp: issued_def)

lemma invoke_requests:
  "sent (snd (invoke net c self w)) = sent w @ requests_of self c"
proof (cases c)
  case (CreateAsset i name val value_type value_scope description u p)
  show ?thesis
  proof (cases "value_type \<in> set [''Integer'', ''Boolean'', ''String'', ''Credential'']")
    case True
    with CreateAsset show ?thesis
      by (simp add: create_asset_valid_sent del: list.set)
  next
    case False
    with CreateAsset show ?thesis
      by (simp add: create_asset_invalid del: list.set)
  qed
qed (simp_all add: get_all_assets_sent get_assets_by_key_sent delete_asset_sent
       add_queue_item_sent create_queue_sent)

lemma run_requests:
  "sent (snd (run net cs self w)) = sent w @ concat (map (requests_of self) cs)"
proof (induction cs arbitrary: w)
  case Nil
  show ?case by simp
next
  case (Cons c cs)
  obtain w' where inv: "invoke net c self w = (self, w')"
    using invoke_self [of net c self w] by (cases "invoke net c self w") simp
  with invoke_requests [of net c self w] have "sent w' = sent w @ requests_of self c"
    by simp
  with Cons.IH [of w'] inv show ?case by simp
qed

lemma run_issued: "issued w (snd (run net cs self w)) = concat (map (requests_of self) cs)"
  by (rule issued_sent) (rule run_requests)

lemma get_all_assets_issued:
  "issued w (snd (snd (get_all_assets net self w))) = [get_all_assets_request self]"
  by (rule issued_sent) (rule get_all_assets_sent)

lemma get_assets_by_key_issued:
  "issued w (snd (snd (get_assets_by_key net self key i w))) =
     [get_assets_by_key_request self key i]"
  by (rule issued_sent) (rule get_assets_by_key_sent)

lemma delete_asset_issued:
  "issued w (snd (snd (delete_asset net self key i w))) = [delete_request self key i]"
  by (rule issued_sent) (rule delete_asset_sent)

text \<open>
  C5. A call to \<^verbatim>\<open>create_asset\<close> whose \<^verbatim>\<open>value_type\<close> is none of Integer, Boolean,
  String, Credential raises the validation error, and it does so before any request is
  issued: the world the call leaves is the world it found.
\<close>

theorem create_asset_rejects_unknown_type:
  "value_type \<notin> set [''Integer'', ''Boolean'', ''String'', ''Credential''] \<Longrightarrow>
   create_asset net self id' name val value_type value_scope description username password w
     = (Inl (ValueError
          ''Invalid value_type. Expected 'Integer', 'Boolean', 'String', or 'Credential'.''),
        self, w)
   \<and> issued w (snd (snd (create_asset net self id' name val value_type value_scope
                            description username password w))) = []"
  by (simp add: create_asset_invalid issued_same del: list.set)

theorem create_asset_rejects_unknown_type_witness:
  "''integer'' \<notin> set [''Integer'', ''Boolean'', ''String'', ''Credential'']
   \<and> create_asset (\<lambda>l rq. Inl (RequestException ''unreachable''))
        \<lparr>base_url = ''https://x'', access_token = PStr ''abc''\<rparr>
        7 ''n'' (PInt 5) ''integer'' ''Global'' ''using api'' PNone PNone
        \<lparr>sent = [], stdout = []\<rparr>
      = (Inl (ValueError
          ''Invalid value_type. Expected 'Integer', 'Boolean', 'String', or 'Credential'.''),
         \<lparr>base_url = ''https://x'', access_token = PStr ''abc''\<rparr>,
         \<lparr>sent = [], stdout = []\<rparr>)"
proof -
  have h: "''integer'' \<notin> set [''Integer'', ''Boolean'', ''String'', ''Credential'']"
    by simp
  from create_asset_rejects_unknown_type [OF h,
      where net = "\<lambda>l rq. Inl (RequestException ''unreachable'')"
        and self = "\<lparr>base_url = ''https://x'', access_token = PStr ''abc''\<rparr>"
        and id' = 7 and name = "''n''" and val = "PInt 5" and value_scope = "''Global''"
        and description = "''using api''" and username = PNone and password = PNone
        and w = "\<lparr>sent = [], stdout = []\<rparr>"]
  show ?thesis using h by blast
qed

section \<open>The body of \<^verbatim>\<open>create_asset\<close>, tag by tag\<close>

lemma valid_Integer: "''Integer'' \<in> set [''Integer'', ''Boolean'', ''String'', ''Credential'']"
  by simp

lemma valid_Boolean: "''Boolean'' \<in> set [''Integer'', ''Boolean'', ''String'', ''Credential'']"
  by simp

lemma valid_String: "''String'' \<in> set [''Integer'', ''Boolean'', ''String'', ''Credential'']"
  by simp

lemma valid_Credential:
  "''Credential'' \<in> set [''Integer'', ''Boolean'', ''String'', ''Credential'']"
  by simp

lemma create_asset_body_Integer:
  "create_asset_body name val ''Integer'' value_scope description username password =
     [(''Name'', PStr name), (''CanBeDeleted'', PBool True),
      (''ValueScope'', PStr value_scope), (''ValueType'', PStr ''Integer''),
      (''Value'', PStr (py_str val)), (''StringValue'', PStr []),
      (''BoolValue'', PBool False), (''IntValue'', val),
      (''CredentialUsername'', PStr []), (''CredentialPassword'', PStr []),
      (''ExternalName'', PStr []), (''CredentialStoreId'', PInt 0),
      (''KeyValueList'', PList []), (''HasDefaultValue'', PBool False),
      (''Description'', PStr description), (''RobotValues'', PList []),
      (''UserValues'', PList []), (''Tags'', PList [])]"
  by (simp add: create_asset_body_def create_asset_base_def dict_setitem_def)

lemma create_asset_body_Boolean:
  "create_asset_body name val ''Boolean'' value_scope description username password =
     [(''Name'', PStr name), (''CanBeDeleted'', PBool True),
      (''ValueScope'', PStr value_scope), (''ValueType'', PStr ''Boolean''),
      (''Value'', PStr (lower (py_str val))), (''StringValue'', PStr []),
      (''BoolValue'', val), (''IntValue'', PInt 0),
      (''CredentialUsername'', PStr []), (''CredentialPassword'', PStr []),
      (''ExternalName'', PStr []), (''CredentialStoreId'', PInt 0),
      (''KeyValueList'', PList []), (''HasDefaultValue'', PBool False),
      (''Description'', PStr description), (''RobotValues'', PList []),
      (''UserValues'', PList []), (''Tags'', PList [])]"
  by (simp add: create_asset_body_def create_asset_base_def dict_setitem_def)

lemma create_asset_body_String:
  "create_asset_body name val ''String'' value_scope description username password =
     [(''Name'', PStr name), (''CanBeDeleted'', PBool True),
      (''ValueScope'', PStr value_scope), (''ValueType'', PStr ''String''),
      (''Value'', PStr (py_str val)), (''StringValue'', val),
      (''BoolValue'', PBool False), (''IntValue'', PInt 0),
      (''CredentialUsername'', PStr []), (''CredentialPassword'', PStr []),
      (''ExternalName'', PStr []), (''CredentialStoreId'', PInt 0),
      (''KeyValueList'', PList []), (''HasDefaultValue'', PBool False),
      (''Description'', PStr description), (''RobotValues'', PList []),
      (''UserValues'', PList []), (''Tags'', PList [])]"
  by (simp add: create_asset_body_def create_asset_base_def dict_setitem_def)

lemma create_asset_body_Credential:
  "create_asset_body name val ''Credential'' value_scope description username password =
     [(''Name'', PStr name), (''CanBeDeleted'', PBool True),
      (''ValueScope'', PStr value_scope), (''ValueType'', PStr ''Credential''),
      (''Value'', PStr (py_str val)), (''StringValue'', PStr []),
      (''BoolValue'', PBool False), (''IntValue'', PInt 0),
      (''CredentialUsername'', username), (''CredentialPassword'', password),
      (''ExternalName'', PStr []), (''CredentialStoreId'', PInt 0),
      (''KeyValueList'', PList []), (''HasDefaultValue'', PBool False),
      (''Description'', PStr description), (''RobotValues'', PList []),
      (''UserValues'', PList []), (''Tags'', PList [])]"
  by (simp add: create_asset_body_def create_asset_base_def dict_setitem_def)

lemma create_asset_issued:
  "value_type \<in> set [''Integer'', ''Boolean'', ''String'', ''Credential''] \<Longrightarrow>
   issued w (snd (snd (create_asset net self i name val value_type value_scope description
                         u p w))) =
     [create_asset_request self i
        (create_asset_body name val value_type value_scope description u p)]"
  by (rule issued_sent) (rule create_asset_valid_sent)

text \<open>
  C1. For each of the four tags, \<^verbatim>\<open>create_asset\<close> issues one request, and its body is
  the fixed schema with exactly the fields of that tag taken from the call: \<open>IntValue\<close>
  for Integer; \<open>BoolValue\<close> and \<open>Value\<close> for Boolean; \<open>StringValue\<close> for String;
  \<open>CredentialUsername\<close> and \<open>CredentialPassword\<close> for Credential. Every other field
  holds what the body of lines 134 to 153 gives it, which is not always a default: the
  arguments in \<open>Name\<close>, \<open>ValueScope\<close>, \<open>ValueType\<close> and \<open>Description\<close>,
  \<^verbatim>\<open>str(value)\<close> in \<open>Value\<close>, \<open>True\<close> in \<open>CanBeDeleted\<close>, and the empty string,
  zero, false or the empty list in the rest.
\<close>

theorem create_asset_fields:
  "issued w (snd (snd (create_asset net self id' name val ''Integer'' value_scope description
                         username password w))) =
     [create_asset_request self id'
        [(''Name'', PStr name), (''CanBeDeleted'', PBool True),
         (''ValueScope'', PStr value_scope), (''ValueType'', PStr ''Integer''),
         (''Value'', PStr (py_str val)), (''StringValue'', PStr []),
         (''BoolValue'', PBool False), (''IntValue'', val),
         (''CredentialUsername'', PStr []), (''CredentialPassword'', PStr []),
         (''ExternalName'', PStr []), (''CredentialStoreId'', PInt 0),
         (''KeyValueList'', PList []), (''HasDefaultValue'', PBool False),
         (''Description'', PStr description), (''RobotValues'', PList []),
         (''UserValues'', PList []), (''Tags'', PList [])]]
   \<and> issued w (snd (snd (create_asset net self id' name val ''Boolean'' value_scope description
                         username password w))) =
     [create_asset_request self id'
        [(''Name'', PStr name), (''CanBeDeleted'', PBool True),
         (''ValueScope'', PStr value_scope), (''ValueType'', PStr ''Boolean''),
         (''Value'', PStr (lower (py_str val))), (''StringValue'', PStr []),
         (''BoolValue'', val), (''IntValue'', PInt 0),
         (''CredentialUsername'', PStr []), (''CredentialPassword'', PStr []),
         (''ExternalName'', PStr []), (''CredentialStoreId'', PInt 0),
         (''KeyValueList'', PList []), (''HasDefaultValue'', PBool False),
         (''Description'', PStr description), (''RobotValues'', PList []),
         (''UserValues'', PList []), (''Tags'', PList [])]]
   \<and> issued w (snd (snd (create_asset net self id' name val ''String'' value_scope description
                         username password w))) =
     [create_asset_request self id'
        [(''Name'', PStr name), (''CanBeDeleted'', PBool True),
         (''ValueScope'', PStr value_scope), (''ValueType'', PStr ''String''),
         (''Value'', PStr (py_str val)), (''StringValue'', val),
         (''BoolValue'', PBool False), (''IntValue'', PInt 0),
         (''CredentialUsername'', PStr []), (''CredentialPassword'', PStr []),
         (''ExternalName'', PStr []), (''CredentialStoreId'', PInt 0),
         (''KeyValueList'', PList []), (''HasDefaultValue'', PBool False),
         (''Description'', PStr description), (''RobotValues'', PList []),
         (''UserValues'', PList []), (''Tags'', PList [])]]
   \<and> issued w (snd (snd (create_asset net self id' name val ''Credential'' value_scope
                         description username password w))) =
     [create_asset_request self id'
        [(''Name'', PStr name), (''CanBeDeleted'', PBool True),
         (''ValueScope'', PStr value_scope), (''ValueType'', PStr ''Credential''),
         (''Value'', PStr (py_str val)), (''StringValue'', PStr []),
         (''BoolValue'', PBool False), (''IntValue'', PInt 0),
         (''CredentialUsername'', username), (''CredentialPassword'', password),
         (''ExternalName'', PStr []), (''CredentialStoreId'', PInt 0),
         (''KeyValueList'', PList []), (''HasDefaultValue'', PBool False),
         (''Description'', PStr description), (''RobotValues'', PList []),
         (''UserValues'', PList []), (''Tags'', PList [])]]"
  by (simp only: create_asset_issued [OF valid_Integer] create_asset_body_Integer
        create_asset_issued [OF valid_Boolean] create_asset_body_Boolean
        create_asset_issued [OF valid_String] create_asset_body_String
        create_asset_issued [OF valid_Credential] create_asset_body_Credential simp_thms)

lemma lower_str_bool:
  "lower (py_str (PBool True)) = ''true''" "lower (py_str (PBool False)) = ''false''"
  by code_simp+

lemma body_field_create_asset_request:
  "body_field (create_asset_request self i body) k = dict_get body k"
  by (simp add: body_field_def create_asset_request_def)

lemma str_five: "py_str (PInt 5) = ''5''"
  by code_simp

text \<open>
  C1, as first written, has every field outside the tag's own at a default or empty
  value. For an Integer asset with value 5 the field \<open>Value\<close> of the request is the
  string \<^verbatim>\<open>5\<close>, not the empty string.
\<close>

theorem create_asset_integer_value_not_empty:
  "map (\<lambda>rq. body_field rq ''Value'')
     (issued \<lparr>sent = [], stdout = []\<rparr>
        (snd (snd (create_asset (\<lambda>l rq. Inl (RequestException ''unreachable''))
           \<lparr>base_url = ''https://x'', access_token = PStr ''abc''\<rparr>
           7 ''n'' (PInt 5) ''Integer'' ''Global'' ''using api'' PNone PNone
           \<lparr>sent = [], stdout = []\<rparr>))))
     = [Some (PStr ''5'')]
   \<and> PStr ''5'' \<noteq> PStr []"
  by (simp add: create_asset_issued [OF valid_Integer] create_asset_body_Integer
        body_field_create_asset_request dict_get_def str_five)

text \<open>
  C2. \<^verbatim>\<open>create_asset\<close> with tag Boolean and value \<open>True\<close> issues one request whose
  body has \<open>BoolValue\<close> true and \<open>Value\<close> the string \<^verbatim>\<open>true\<close>; with value \<open>False\<close>,
  \<open>BoolValue\<close> is false and \<open>Value\<close> is \<^verbatim>\<open>false\<close>.
\<close>

theorem create_asset_boolean_dual_encoding:
  "map (\<lambda>rq. (body_field rq ''BoolValue'', body_field rq ''Value''))
     (issued w (snd (snd (create_asset net self id' name (PBool True) ''Boolean'' value_scope
                            description username password w))))
     = [(Some (PBool True), Some (PStr ''true''))]
   \<and> map (\<lambda>rq. (body_field rq ''BoolValue'', body_field rq ''Value''))
     (issued w (snd (snd (create_asset net self id' name (PBool False) ''Boolean'' value_scope
                            description username password w))))
     = [(Some (PBool False), Some (PStr ''false''))]"
  by (simp add: create_asset_issued [OF valid_Boolean] create_asset_body_Boolean
        body_field_create_asset_request lower_str_bool dict_get_def)

text \<open>
  C9. The body of lines 134 to 153 holds \<^verbatim>\<open>str(value)\<close> in \<open>Value\<close> whatever the tag.
  The request of an Integer, String or Credential asset still carries it there; the
  Boolean branch alone overwrites it, with \<^verbatim>\<open>str(value).lower()\<close>.
\<close>

theorem create_asset_value_is_str:
  "dict_get (create_asset_base name val value_type value_scope description) ''Value''
     = Some (PStr (py_str val))
   \<and> map (\<lambda>rq. body_field rq ''Value'')
       (issued w (snd (snd (create_asset net self id' name val ''Integer'' value_scope
                              description username password w))))
     = [Some (PStr (py_str val))]
   \<and> map (\<lambda>rq. body_field rq ''Value'')
       (issued w (snd (snd (create_asset net self id' name val ''String'' value_scope
                              description username password w))))
     = [Some (PStr (py_str val))]
   \<and> map (\<lambda>rq. body_field rq ''Value'')
       (issued w (snd (snd (create_asset net self id' name val ''Credential'' value_scope
                              description username password w))))
     = [Some (PStr (py_str val))]
   \<and> map (\<lambda>rq. body_field rq ''Value'')
       (issued w (snd (snd (create_asset net self id' name val ''Boolean'' value_scope
                              description username password w))))
     = [Some (PStr (lower (py_str val)))]"
  by (simp add: create_asset_base_def dict_get_def body_field_create_asset_request
        create_asset_issued [OF valid_Integer] create_asset_body_Integer
        create_asset_issued [OF valid_String] create_asset_body_String
        create_asset_issued [OF valid_Credential] create_asset_body_Credential
        create_asset_issued [OF valid_Boolean] create_asset_body_Boolean)

section \<open>Queue bodies\<close>

lemma dict_get_Nil: "dict_get [] k = None"
  by (simp add: dict_get_def)

lemma dict_get_Cons:
  "dict_get ((k, v) # d) k' = (if k' = k then Some v else dict_get d k')"
  by (simp add: dict_get_def)

lemma create_queue_issued:
  "issued w (snd (snd (create_queue net self i name description kwargs w))) =
     [create_queue_request self i (create_queue_body name description kwargs)]"
  by (rule issued_sent) (rule create_queue_sent)

lemma add_queue_item_issued:
  "issued w (snd (snd (add_queue_item net self i queue_name specific_content priority
                         kwargs w))) =
     [add_queue_item_request self i
        (add_queue_item_body queue_name specific_content priority kwargs)]"
  by (rule issued_sent) (rule add_queue_item_sent)

lemma body_field_create_queue_request:
  "body_field (create_queue_request self i body) k = dict_get body k"
  by (simp add: body_field_def create_queue_request_def)

lemma body_field_add_queue_item_request:
  "body_field (add_queue_item_request self i body) k = dict_get body k"
  by (simp add: body_field_def add_queue_item_request_def)

text \<open>
  C3. In the body \<^verbatim>\<open>create_queue\<close> sends and in the body \<^verbatim>\<open>add_queue_item\<close> sends,
  every key of the overrides holds the override's value, also where the base body has
  the key (\<open>Name\<close> or \<open>Description\<close> for a queue, \<open>itemData\<close> for a queue item).
\<close>

theorem overrides_take_precedence:
  "is_dict kwargs \<Longrightarrow> (k, v) \<in> set kwargs \<Longrightarrow>
   is_dict kwargs' \<Longrightarrow> (k', v') \<in> set kwargs' \<Longrightarrow>
   map (\<lambda>rq. body_field rq k)
     (issued w (snd (snd (create_queue net self id' name description kwargs w))))
     = [Some v]
   \<and> map (\<lambda>rq. body_field rq k')
     (issued w (snd (snd (add_queue_item net self id' queue_name specific_content priority
                            kwargs' w))))
     = [Some v']"
  by (simp add: create_queue_issued add_queue_item_issued body_field_create_queue_request
        body_field_add_queue_item_request create_queue_body_def add_queue_item_body_def
        dict_get_update_member)

theorem overrides_take_precedence_witness:
  "is_dict [(''Name'', PStr ''renamed''), (''Retries'', PInt 3)]
   \<and> (''Name'', PStr ''renamed'') \<in> set [(''Name'', PStr ''renamed''), (''Retries'', PInt 3)]
   \<and> is_dict [(''itemData'', PNone)]
   \<and> (''itemData'', PNone) \<in> set [(''itemData'', PNone)]
   \<and> map (\<lambda>rq. body_field rq ''Name'')
       (issued \<lparr>sent = [], stdout = []\<rparr>
          (snd (snd (create_queue (\<lambda>l rq. Inl (RequestException ''unreachable''))
             \<lparr>base_url = ''https://x'', access_token = PStr ''abc''\<rparr> 7 ''orders''
             ''created using api'' [(''Name'', PStr ''renamed''), (''Retries'', PInt 3)]
             \<lparr>sent = [], stdout = []\<rparr>))))
     = [Some (PStr ''renamed'')]
   \<and> map (\<lambda>rq. body_field rq ''itemData'')
       (issued \<lparr>sent = [], stdout = []\<rparr>
          (snd (snd (add_queue_item (\<lambda>l rq. Inl (RequestException ''unreachable''))
             \<lparr>base_url = ''https://x'', access_token = PStr ''abc''\<rparr> 7 ''orders''
             [] ''Normal'' [(''itemData'', PNone)]
             \<lparr>sent = [], stdout = []\<rparr>))))
     = [Some PNone]"
proof -
  have h1: "is_dict [(''Name'', PStr ''renamed''), (''Retries'', PInt 3)]"
    by (simp add: is_dict_def)
  have h2: "(''Name'', PStr ''renamed'')
              \<in> set [(''Name'', PStr ''renamed''), (''Retries'', PInt 3)]"
    by simp
  have h3: "is_dict [(''itemData'', PNone)]"
    by (simp add: is_dict_def)
  have h4: "(''itemData'', PNone) \<in> set [(''itemData'', PNone)]"
    by simp
  from overrides_take_precedence [OF h1 h2 h3 h4] h1 h2 h3 h4
  show ?thesis by blast
qed

text \<open>
  C8. \<^verbatim>\<open>add_queue_item\<close> merges the overrides into the top level of the body only.
  When no override key is \<open>itemData\<close>, the \<open>itemData\<close> object of the request is the
  one built from \<open>queue_name\<close>, \<open>priority\<close> and \<open>specific_content\<close>, whatever the
  overrides hold; an override with the key \<open>itemData\<close> replaces the whole object.
\<close>

theorem add_queue_item_item_data:
  "(''itemData'' \<notin> fst ` set kwargs \<longrightarrow>
      map (\<lambda>rq. body_field rq ''itemData'')
        (issued w (snd (snd (add_queue_item net self id' queue_name specific_content priority
                               kwargs w))))
      = [Some (PDict [(''Name'', PStr queue_name), (''Priority'', PStr priority),
                      (''SpecificContent'', PDict specific_content)])])
   \<and> (is_dict kwargs \<and> (''itemData'', v) \<in> set kwargs \<longrightarrow>
      map (\<lambda>rq. body_field rq ''itemData'')
        (issued w (snd (snd (add_queue_item net self id' queue_name specific_content priority
                               kwargs w))))
      = [Some v])"
  by (simp add: add_queue_item_issued body_field_add_queue_item_request
        add_queue_item_body_def dict_get_update_member dict_get_update_other dict_get_Cons)

theorem add_queue_item_item_data_witness:
  "''itemData'' \<notin> fst ` set [(''Name'', PStr ''other''), (''Priority'', PStr ''High'')]
   \<and> map (\<lambda>rq. body_field rq ''itemData'')
       (issued \<lparr>sent = [], stdout = []\<rparr>
          (snd (snd (add_queue_item (\<lambda>l rq. Inl (RequestException ''unreachable''))
             \<lparr>base_url = ''https://x'', access_token = PStr ''abc''\<rparr> 7 ''orders''
             [(''n'', PInt 1)] ''Normal''
             [(''Name'', PStr ''other''), (''Priority'', PStr ''High'')]
             \<lparr>sent = [], stdout = []\<rparr>))))
     = [Some (PDict [(''Name'', PStr ''orders''), (''Priority'', PStr ''Normal''),
                     (''SpecificContent'', PDict [(''n'', PInt 1)])])]
   \<and> is_dict [(''Reference'', PStr ''r1''), (''itemData'', PDict [])]
   \<and> (''itemData'', PDict []) \<in> set [(''Reference'', PStr ''r1''), (''itemData'', PDict [])]
   \<and> map (\<lambda>rq. body_field rq ''itemData'')
       (issued \<lparr>sent = [], stdout = []\<rparr>
          (snd (snd (add_queue_item (\<lambda>l rq. Inl (RequestException ''unreachable''))
             \<lparr>base_url = ''https://x'', access_token = PStr ''abc''\<rparr> 7 ''orders''
             [(''n'', PInt 1)] ''Normal''
             [(''Reference'', PStr ''r1''), (''itemData'', PDict [])]
             \<lparr>sent = [], stdout = []\<rparr>))))
     = [Some (PDict [])]"
proof -
  have h1: "''itemData''
              \<notin> fst ` set [(''Name'', PStr ''other''), (''Priority'', PStr ''High'')]"
    by simp
  have h2: "is_dict [(''Reference'', PStr ''r1''), (''itemData'', PDict [])]"
    by (simp add: is_dict_def)
  have h3: "(''itemData'', PDict [])
              \<in> set [(''Reference'', PStr ''r1''), (''itemData'', PDict [])]"
    by simp
  from add_queue_item_item_data
         [where kwargs = "[(''Name'', PStr ''other''), (''Priority'', PStr ''High'')]"]
       add_queue_item_item_data
         [where kwargs = "[(''Reference'', PStr ''r1''), (''itemData'', PDict [])]"
            and v = "PDict []"]
       h1 h2 h3
  show ?thesis by blast
qed

section \<open>Status codes\<close>

text \<open>
  C7. When the server answers the DELETE request, \<^verbatim>\<open>delete_asset\<close> returns normally
  exactly when the status is 204; with any other status it raises the error whose
  message carries the status code and the text of the response.
\<close>

theorem delete_asset_status:
  "net (sent w) (delete_request self key id') = Inr r \<Longrightarrow>
   (fst (delete_asset net self key id' w) = Inr ()) = (status_code r = 204)
   \<and> (status_code r \<noteq> 204 \<longrightarrow>
        fst (delete_asset net self key id' w) =
          Inl (ValueError (''Failed to delete asset. Status code: ''
                           @ str_int (status_code r) @ ''. Response: '' @ text_r r)))"
  by (simp add: delete_asset_result failure_def)

theorem delete_asset_status_witness:
  "fst (delete_asset
          (\<lambda>l rq. Inr \<lparr>status_code = 404, text_r = ''no such asset'',
                        json = Inl (JSONDecodeError ''Expecting value'')\<rparr>)
          \<lparr>base_url = ''https://x'', access_token = PStr ''abc''\<rparr> 12 7
          \<lparr>sent = [], stdout = []\<rparr>)
     = Inl (ValueError ''Failed to delete asset. Status code: 404. Response: no such asset'')
   \<and> fst (delete_asset
          (\<lambda>l rq. Inr \<lparr>status_code = 204, text_r = [], json = Inl (JSONDecodeError [])\<rparr>)
          \<lparr>base_url = ''https://x'', access_token = PStr ''abc''\<rparr> 12 7
          \<lparr>sent = [], stdout = []\<rparr>)
     = Inr ()"
proof -
  have s: "str_int 404 = ''404''"
    by code_simp
  from delete_asset_status
         [where net = "\<lambda>l rq. Inr \<lparr>status_code = 404, text_r = ''no such asset'',
                                      json = Inl (JSONDecodeError ''Expecting value'')\<rparr>"
            and r = "\<lparr>status_code = 404, text_r = ''no such asset'',
                      json = Inl (JSONDecodeError ''Expecting value'')\<rparr>"]
       delete_asset_status
         [where net = "\<lambda>l rq. Inr \<lparr>status_code = 204, text_r = [],
                                      json = Inl (JSONDecodeError [])\<rparr>"
            and r = "\<lparr>status_code = 204, text_r = [], json = Inl (JSONDecodeError [])\<rparr>"]
  show ?thesis by (simp add: s)
qed

section \<open>Construction\<close>

text \<open>
  Where the body of the token response decodes, \<^verbatim>\<open>__init__\<close> does what its error
  message announces: status 200 stores the token, any other status raises with the
  status code and the text.
\<close>

lemma init_decodable:
  "net (sent w) (token_request client_id refresh_token tokenurl) = Inr r \<Longrightarrow>
   json r = Inr access \<Longrightarrow> status_code r \<noteq> 200 \<Longrightarrow>
   fst (init net client_id refresh_token base tokenurl w) =
     Inl (ValueError (''Failed to retrieve access token. Status code: ''
                      @ str_int (status_code r) @ ''. Response: '' @ text_r r))"
  by (simp add: init_result failure_def)

text \<open>
  \<^verbatim>\<open>response.json()\<close> runs on line 39, before the status is looked at on line 40: a
  response whose body does not decode raises the decoder's exception, whatever its
  status.
\<close>

lemma init_undecodable:
  "net (sent w) (token_request client_id refresh_token tokenurl) = Inr r \<Longrightarrow>
   json r = Inl e \<Longrightarrow>
   fst (init net client_id refresh_token base tokenurl w) = Inl e"
  by (simp add: init_result)

text \<open>
  C4. A token response with status 401 and the body \<^verbatim>\<open>Unauthorized\<close>, which is not
  JSON: construction fails, and no client is produced, but the error is the decoder's
  and carries neither the status code nor the text of the response.
\<close>

theorem init_401_undecodable_body:
  "init (\<lambda>l rq. Inr \<lparr>status_code = 401, text_r = ''Unauthorized'',
                      json = Inl (JSONDecodeError
                                    ''Expecting value: line 1 column 1 (char 0)'')\<rparr>)
     ''client'' ''refresh'' ''https://x'' default_tokenurl \<lparr>sent = [], stdout = []\<rparr>
   = (Inl (JSONDecodeError ''Expecting value: line 1 column 1 (char 0)''),
      \<lparr>sent = [token_request ''client'' ''refresh'' default_tokenurl], stdout = []\<rparr>)"
  by (simp add: init_def requests_post_def send_def token_request_def CONTENT_TYPE_JSON_def)

text \<open>
  C6. A token response with status 200 and the body \<^verbatim>\<open>{"access_token":"abc"}\<close> gives
  a client that holds the token \<^verbatim>\<open>abc\<close>. Each method called on it issues exactly one
  request (\<^verbatim>\<open>create_asset\<close> when the tag is valid), and the headers of that request
  hold \<^verbatim>\<open>Authorization: Bearer abc\<close> and \<^verbatim>\<open>accept: application/json\<close>. A sequence
  of calls issues the requests of its calls in their order, and every one of them
  carries the two headers.
\<close>

theorem bearer_token_on_every_request:
  "net (sent w) (token_request client_id refresh_token tokenurl) = Inr r \<Longrightarrow>
   status_code r = 200 \<Longrightarrow>
   json r = Inr (PDict [(''access_token'', PStr ''abc'')]) \<Longrightarrow>
   fst (init net client_id refresh_token base tokenurl w)
     = Inr \<lparr>base_url = base, access_token = PStr ''abc''\<rparr>
   \<and> map headers (issued w' (snd (snd (get_all_assets net
          \<lparr>base_url = base, access_token = PStr ''abc''\<rparr> w'))))
       = [[(''Authorization'', ''Bearer abc''),
           (''Content-Type'',
            ''application/json;odata.metadata=minimal;odata.streaming=True''),
           (''accept'', ''application/json'')]]
   \<and> map headers (issued w' (snd (snd (get_assets_by_key net
          \<lparr>base_url = base, access_token = PStr ''abc''\<rparr> key id' w'))))
       = [[(''Authorization'', ''Bearer abc''),
           (''X-UIPATH-OrganizationUnitId'', str_int id'),
           (''accept'', ''application/json'')]]
   \<and> map headers (issued w' (snd (snd (delete_asset net
          \<lparr>base_url = base, access_token = PStr ''abc''\<rparr> key id' w'))))
       = [[(''Authorization'', ''Bearer abc''),
           (''X-UIPATH-OrganizationUnitId'', str_int id'),
           (''accept'', ''application/json'')]]
   \<and> (value_type \<in> set [''Integer'', ''Boolean'', ''String'', ''Credential''] \<longrightarrow>
        map headers (issued w' (snd (snd (create_asset net
          \<lparr>base_url = base, access_token = PStr ''abc''\<rparr> id' name val value_type
          value_scope description username password w'))))
        = [[(''Authorization'', ''Bearer abc''),
            (''X-UIPATH-OrganizationUnitId'', str_int id'),
            (''accept'', ''application/json'')]])
   \<and> map headers (issued w' (snd (snd (add_queue_item net
          \<lparr>base_url = base, access_token = PStr ''abc''\<rparr> id' queue_name
          specific_content priority kwargs w'))))
       = [[(''Authorization'', ''Bearer abc''),
           (''X-UIPATH-OrganizationUnitId'', str_int id'),
           (''accept'', ''application/json'')]]
   \<and> map headers (issued w' (snd (snd (create_queue net
          \<lparr>base_url = base, access_token = PStr ''abc''\<rparr> id' name description
          kwargs w'))))
       = [[(''Authorization'', ''Bearer abc''),
           (''X-UIPATH-OrganizationUnitId'', str_int id'),
           (''accept'', ''application/json'')]]
   \<and> issued w' (snd (run net calls \<lparr>base_url = base, access_token = PStr ''abc''\<rparr> w'))
       = concat (map (requests_of \<lparr>base_url = base, access_token = PStr ''abc''\<rparr>) calls)
   \<and> (\<forall>rq \<in> set (issued w' (snd (run net calls
                      \<lparr>base_url = base, access_token = PStr ''abc''\<rparr> w'))).
          authenticated ''abc'' rq)"
proof -
  let ?c = "\<lparr>base_url = base, access_token = PStr ''abc''\<rparr>"
  assume r: "net (sent w) (token_request client_id refresh_token tokenurl) = Inr r"
     and "status_code r = 200"
     and "json r = Inr (PDict [(''access_token'', PStr ''abc'')])"
  then have made: "fst (init net client_id refresh_token base tokenurl w) = Inr ?c"
    using r by (simp add: init_result py_getitem_def dict_get_Cons)
  have scoped: "scoped_headers ?c id' =
                  [(''Authorization'', ''Bearer abc''),
                   (''X-UIPATH-OrganizationUnitId'', str_int id'),
                   (''accept'', ''application/json'')]"
    by (simp add: scoped_headers_def py_str_def)
  have all: "map headers (issued w' (snd (snd (get_all_assets net ?c w'))))
       = [[(''Authorization'', ''Bearer abc''),
           (''Content-Type'',
            ''application/json;odata.metadata=minimal;odata.streaming=True''),
           (''accept'', ''application/json'')]]"
    by (simp add: get_all_assets_issued get_all_assets_request_def py_str_def)
  have by_key: "map headers (issued w' (snd (snd (get_assets_by_key net ?c key id' w'))))
       = [scoped_headers ?c id']"
    by (simp add: get_assets_by_key_issued get_assets_by_key_request_def)
  have del: "map headers (issued w' (snd (snd (delete_asset net ?c key id' w'))))
       = [scoped_headers ?c id']"
    by (simp add: delete_asset_issued delete_request_def)
  have create: "map headers (issued w' (snd (snd (create_asset net ?c id' name val value_type
                  value_scope description username password w'))))
       = [scoped_headers ?c id']"
    if "value_type \<in> set [''Integer'', ''Boolean'', ''String'', ''Credential'']"
    using that by (simp add: create_asset_issued create_asset_request_def del: list.set)
  have item: "map headers (issued w' (snd (snd (add_queue_item net ?c id' queue_name
                specific_content priority kwargs w'))))
       = [scoped_headers ?c id']"
    by (simp add: add_queue_item_issued add_queue_item_request_def)
  have queue: "map headers (issued w' (snd (snd (create_queue net ?c id' name description
                 kwargs w'))))
       = [scoped_headers ?c id']"
    by (simp add: create_queue_issued create_queue_request_def)
  have seq: "issued w' (snd (run net calls ?c w')) = concat (map (requests_of ?c) calls)"
    by (rule run_issued)
  have every: "\<forall>rq \<in> set (issued w' (snd (run net calls ?c w'))). authenticated ''abc'' rq"
    using run_issued_authenticated [of _ w' net calls ?c] by (simp add: py_str_def)
  from made all by_key del create item queue seq every show ?thesis
    unfolding scoped by blast
qed

lemma str_int_small: "str_int 7 = ''7''" "str_int 12 = ''12''"
  by code_simp+

theorem bearer_token_on_every_request_witness:
  \<open>fst (init (\<lambda>l rq. Inr \<lparr>status_code = 200, text_r = ''{"access_token":"abc"}'',
                            json = Inr (PDict [(''access_token'', PStr ''abc'')])\<rparr>)
          ''client'' ''refresh'' ''https://x'' default_tokenurl \<lparr>sent = [], stdout = []\<rparr>)
     = Inr \<lparr>base_url = ''https://x'', access_token = PStr ''abc''\<rparr>
   \<and> map headers
        (issued \<lparr>sent = [], stdout = []\<rparr>
           (snd (run (\<lambda>l rq. Inr \<lparr>status_code = 200,
                                    text_r = ''{"access_token":"abc"}'',
                                    json = Inr (PDict [(''access_token'', PStr ''abc'')])\<rparr>)
                   [GetAllAssets, DeleteAsset 12 7,
                    CreateAsset 7 ''n'' (PInt 5) ''Integer'' ''Global'' ''using api''
                      PNone PNone]
                   \<lparr>base_url = ''https://x'', access_token = PStr ''abc''\<rparr>
                   \<lparr>sent = [], stdout = []\<rparr>)))
     = [[(''Authorization'', ''Bearer abc''),
         (''Content-Type'', ''application/json;odata.metadata=minimal;odata.streaming=True''),
         (''accept'', ''application/json'')],
        [(''Authorization'', ''Bearer abc''), (''X-UIPATH-OrganizationUnitId'', ''7''),
         (''accept'', ''application/json'')],
        [(''Authorization'', ''Bearer abc''), (''X-UIPATH-OrganizationUnitId'', ''7''),
         (''accept'', ''application/json'')]]
   \<and> list_all (authenticated ''abc'')
        (issued \<lparr>sent = [], stdout = []\<rparr>
           (snd (run (\<lambda>l rq. Inr \<lparr>status_code = 200,
                                    text_r = ''{"access_token":"abc"}'',
                                    json = Inr (PDict [(''access_token'', PStr ''abc'')])\<rparr>)
                   [GetAllAssets, DeleteAsset 12 7,
                    CreateAsset 7 ''n'' (PInt 5) ''Integer'' ''Global'' ''using api''
                      PNone PNone]
                   \<lparr>base_url = ''https://x'', access_token = PStr ''abc''\<rparr>
                   \<lparr>sent = [], stdout = []\<rparr>)))\<close>
proof -
  let ?r = \<open>\<lparr>status_code = 200, text_r = ''{"access_token":"abc"}'',
              json = Inr (PDict [(''access_token'', PStr ''abc'')])\<rparr>\<close>
  let ?net = "\<lambda>l rq. Inr ?r :: error + response"
  let ?w = "\<lparr>sent = [], stdout = []\<rparr>"
  let ?c = "\<lparr>base_url = ''https://x'', access_token = PStr ''abc''\<rparr>"
  let ?calls = "[GetAllAssets, DeleteAsset 12 7,
                 CreateAsset 7 ''n'' (PInt 5) ''Integer'' ''Global'' ''using api'' PNone PNone]"
  have h1: "?net (sent ?w) (token_request ''client'' ''refresh'' default_tokenurl) = Inr ?r"
    by simp
  have h2: "status_code ?r = 200"
    by simp
  have h3: "json ?r = Inr (PDict [(''access_token'', PStr ''abc'')])"
    by simp
  note inst = bearer_token_on_every_request
               [OF h1 h2 h3, where base = "''https://x''" and w' = ?w and calls = ?calls]
  from inst have made:
    "fst (init ?net ''client'' ''refresh'' ''https://x'' default_tokenurl ?w) = Inr ?c"
    by blast
  from inst have seq: "issued ?w (snd (run ?net ?calls ?c ?w))
                        = concat (map (requests_of ?c) ?calls)"
    by blast
  from inst have every: "\<forall>rq \<in> set (issued ?w (snd (run ?net ?calls ?c ?w))).
                          authenticated ''abc'' rq"
    by blast
  have hs: "map headers (issued ?w (snd (run ?net ?calls ?c ?w)))
     = [[(''Authorization'', ''Bearer abc''),
         (''Content-Type'', ''application/json;odata.metadata=minimal;odata.streaming=True''),
         (''accept'', ''application/json'')],
        [(''Authorization'', ''Bearer abc''), (''X-UIPATH-OrganizationUnitId'', ''7''),
         (''accept'', ''application/json'')],
        [(''Authorization'', ''Bearer abc''), (''X-UIPATH-OrganizationUnitId'', ''7''),
         (''accept'', ''application/json'')]]"
    unfolding seq
    by (simp add: get_all_assets_request_def delete_request_def create_asset_request_def
          scoped_headers_def py_str_def str_int_small)
  from every have "list_all (authenticated ''abc'') (issued ?w (snd (run ?net ?calls ?c ?w)))"
    unfolding list_all_iff .
  with made hs show ?thesis by blast
qed

section \<open>The client object\<close>

text \<open>
  C10. Each of the six methods hands back the client object it was given, with the same
  \<open>base_url\<close> and \<open>access_token\<close>, whether it returns or raises.
\<close>

theorem methods_leave_client_unchanged:
  "fst (snd (get_all_assets net self w)) = self
   \<and> fst (snd (get_assets_by_key net self key id' w)) = self
   \<and> fst (snd (delete_asset net self key id' w)) = self
   \<and> fst (snd (create_asset net self id' name val value_type value_scope description
                  username password w)) = self
   \<and> fst (snd (add_queue_item net self id' queue_name specific_content priority kwargs w))
       = self
   \<and> fst (snd (create_queue net self id' name description kwargs w)) = self"
  by (simp only: get_all_assets_self get_assets_by_key_self delete_asset_self
        create_asset_self add_queue_item_self create_queue_self simp_thms)

end
